theory Spec2Isabelle
  imports Main
begin

section \<open>The data of \<^verbatim>\<open>src/matrix/calls/PeerCall.ts\<close>\<close>

subsection \<open>Enumerations\<close>

datatype CallParty = Local | Remote

datatype CallState =
    Fledgling | InviteSent | WaitLocalMedia | CreateOffer | CreateAnswer
  | Connecting | Connected | Ringing | Ended

datatype CallDirection = Inbound | Outbound

datatype EventType =
    Invite | Candidates | Answer | Hangup | Reject | SelectAnswer | Negotiate
  | SDPStreamMetadataChanged | SDPStreamMetadataChangedPrefix | Replaces
  | AssertedIdentity | AssertedIdentityPrefix

text \<open>
  \<^verbatim>\<open>CallErrorCode\<close>. Two of its members share their name with a member of
  \<^verbatim>\<open>CallState\<close> or with a method; they carry the suffix \<^verbatim>\<open>_code\<close> here.
\<close>

datatype CallErrorCode =
    UserHangup | LocalOfferFailed | NoUserMedia | UnknownDevices | SendInvite
  | CreateAnswer_code | SendAnswer | SetRemoteDescription | SetLocalDescription
  | AnsweredElsewhere | IceFailed | InviteTimeout | Replaced | SignallingFailed
  | UserBusy | Transfered | NewSession

datatype TrackType = ScreenShare | Camera | Microphone

datatype SDPStreamMetadataPurpose = Usermedia | Screenshare

datatype RTCIceGatheringState = gathering_new | gathering | gathering_complete

datatype RTCSignalingState =
    stable | have_local_offer | have_remote_offer | have_local_pranswer
  | have_remote_pranswer | closed

definition CALL_TIMEOUT_MS :: nat where
  "CALL_TIMEOUT_MS = 60000"

subsection \<open>Values exchanged with the platform and the wire\<close>

text \<open>
  \<^verbatim>\<open>type PartyId = string | null\<close>: \<open>None\<close> is \<^verbatim>\<open>null\<close>, the legacy call
  without a device id. A field of type \<^verbatim>\<open>PartyId | undefined\<close> is a
  \<open>PartyId option\<close>, whose \<open>None\<close> is \<^verbatim>\<open>undefined\<close>.
\<close>

type_synonym PartyId = "string option"

record RTCIceCandidate =
  candidate :: string
  sdpMid :: "string option"
  sdpMLineIndex :: "nat option"

record RTCSessionDescriptionInit =
  sdp :: string
  sdp_type :: string

record Track =
  track_id :: string
  streamId :: string
  track_type :: TrackType

record SDPStreamMetadataObject =
  purpose :: SDPStreamMetadataPurpose
  audio_muted :: bool
  video_muted :: bool

type_synonym SDPStreamMetadata = "(string \<times> SDPStreamMetadataObject) list"

text \<open>
  \<^verbatim>\<open>LocalMedia\<close> (its class is outside these sources): the tracks it owns and the
  value its \<^verbatim>\<open>getSDPMetadata()\<close> returns.
\<close>

record LocalMedia =
  tracks :: "Track list"
  getSDPMetadata :: SDPStreamMetadata

text \<open>
  The properties of the \<^verbatim>\<open>PeerConnection\<close> that the PeerCall reads. They belong to
  the platform, which may change them whenever the PeerCall is suspended.
\<close>

record PeerConnection =
  remoteTracks :: "Track list"
  iceGatheringState :: RTCIceGatheringState
  signalingState :: RTCSignalingState
  localDescription :: "RTCSessionDescriptionInit option"

record InviteContent =
  invite_offer :: "RTCSessionDescriptionInit option"
  invite_sdp_stream_metadata :: "SDPStreamMetadata option"
  invite_version :: "nat option"
  invite_lifetime :: "nat option"

record AnwserContent =
  answer_answer :: "RTCSessionDescriptionInit option"
  answer_sdp_stream_metadata :: "SDPStreamMetadata option"

text \<open>
  A signalling message is tagged by its \<^verbatim>\<open>type\<close>. \<open>OtherMessage t\<close> is a message
  of any other event type \<open>t\<close> (a Hangup among them); its content is never read.
\<close>

datatype SignallingMessage =
    InviteMessage InviteContent
  | AnswerMessage AnwserContent
  | CandidatesMessage "RTCIceCandidate list"
  | OtherMessage EventType

fun message_type :: "SignallingMessage \<Rightarrow> EventType" where
  "message_type (InviteMessage c) = Invite"
| "message_type (AnswerMessage c) = Answer"
| "message_type (CandidatesMessage cs) = Candidates"
| "message_type (OtherMessage t) = t"

subsection \<open>Effects\<close>

text \<open>
  Every call the PeerCall makes on the peer connection, on a track, on the host's
  handler and on the timeout factory is appended to a trace, in the order made.
\<close>

datatype Effect =
    pc_addTrack Track
  | pc_createAnswer
  | pc_setLocalDescription "RTCSessionDescriptionInit option"
  | pc_setRemoteDescription "RTCSessionDescriptionInit option"
  | pc_addIceCandidate RTCIceCandidate
  | pc_notifyStreamPurposeChanged
  | pc_close
  | track_setMuted Track "bool option"
  | track_stop Track
  | emitUpdate
  | sendSignallingMessage SignallingMessage
  | createTimeout nat

subsection \<open>The PeerCall\<close>

text \<open>
  The fields of the class. \<open>hangupReason\<close> is not declared by the class and no
  method assigns it: reading the property gives \<^verbatim>\<open>undefined\<close>, here \<open>None\<close>.
  \<open>disposables\<close> holds the durations of the timeouts being tracked, and
  \<open>statePromiseMap\<close> the states that have a deferred waiting.
  \<^verbatim>\<open>responsePromiseChain\<close> holds a promise and is kept beside the record.
\<close>

record PeerCall =
  peerConnection :: PeerConnection
  state :: CallState
  direction :: "CallDirection option"
  candidateSendQueue :: "RTCIceCandidate list"
  remoteCandidateBuffer :: "(string \<times> RTCIceCandidate list) list option"
  remoteSDPStreamMetadata :: "SDPStreamMetadata option"
  opponentPartyId :: "PartyId option"
  hangupParty :: "CallParty option"
  hangupReason :: "CallErrorCode option"
  disposables :: "nat list"
  statePromiseMap :: "CallState list"
  localMedia :: LocalMedia
  effects :: "Effect list"

section \<open>Asynchronous functions\<close>

text \<open>
  An \<^verbatim>\<open>async\<close> function runs synchronously up to its first \<^verbatim>\<open>await\<close>, and is
  resumed later, when the awaited promise has settled, in whatever state the
  PeerCall has by then. A task is what such a function has become once its
  synchronous segment has run:
  \<^item> \<open>Finish s r\<close>: it has completed, leaving the PeerCall as \<open>s\<close>; its promise is
    fulfilled (\<open>Returned\<close>) or rejected (\<open>Threw e\<close>, with \<open>Rejection\<close> for the
    reason of an awaited promise that rejected);
  \<^item> \<open>Suspend s w k\<close>: it left the PeerCall as \<open>s\<close> and awaits \<open>w\<close>; resumed with the
    settlement \<open>r\<close> of \<open>w\<close> in state \<open>s'\<close> it goes on as \<open>k r s'\<close>;
  \<^item> \<open>Detached w k t\<close>: it goes on as \<open>t\<close>, and has started work nobody awaits,
    which is suspended on \<open>w\<close> with continuation \<open>k\<close>.
\<close>

datatype error = TypeError | Rejection | OutOfFuel

datatype outcome = Returned | Threw error

datatype reply = Fulfilled | FulfilledWith RTCSessionDescriptionInit | Rejected

datatype awaited =
    AwaitLocalMedia
  | AwaitPc
  | AwaitSend
  | AwaitTimeout nat
  | AwaitState CallState
  | AwaitTask

datatype task =
    Finish PeerCall outcome
  | Suspend PeerCall awaited "reply \<Rightarrow> PeerCall \<Rightarrow> task"
  | Detached awaited "reply \<Rightarrow> PeerCall \<Rightarrow> task" task

text \<open>The settlement of a promise that a caller passes in.\<close>

datatype 'a Promise = resolves 'a | rejects

text \<open>The PeerCall as the synchronous segment left it.\<close>

primrec task_state :: "task \<Rightarrow> PeerCall" where
  "task_state (Finish s r) = s"
| "task_state (Suspend s w k) = s"
| "task_state (Detached w k t) = task_state t"

text \<open>
  \<^verbatim>\<open>await f()\<close> for an async function \<open>f\<close> of the class: the caller is suspended
  wherever \<open>f\<close> is, and once \<open>f\<close> has completed, for one more turn of the job queue.
\<close>

primrec await_task :: "task \<Rightarrow> (outcome \<Rightarrow> PeerCall \<Rightarrow> task) \<Rightarrow> task" where
  "await_task (Finish s r) k = Suspend s AwaitTask (\<lambda>_ s'. k r s')"
| "await_task (Suspend s w c) k = Suspend s w (\<lambda>rep s'. await_task (c rep s') k)"
| "await_task (Detached w c t) k = Detached w c (await_task t k)"

text \<open>
  \<^verbatim>\<open>f()\<close> without \<^verbatim>\<open>await\<close>: the synchronous segment of \<open>f\<close> runs, the caller goes
  on in the state it left, and the rest of \<open>f\<close> is detached. A rejection of \<open>f\<close>
  is not observed by the caller.
\<close>

primrec spawn :: "task \<Rightarrow> (PeerCall \<Rightarrow> task) \<Rightarrow> task" where
  "spawn (Finish s r) k = k s"
| "spawn (Suspend s w c) k = Detached w c (k s)"
| "spawn (Detached w c t) k = Detached w c (spawn t k)"

text \<open>
  Resuming a task: its awaited promise settles with \<open>r\<close> while the PeerCall is
  \<open>s'\<close>. \<open>continue\<close> resumes it in the state it left, \<open>detached\<close> resumes the
  first piece of detached work instead.
\<close>

primrec resume :: "reply \<Rightarrow> PeerCall \<Rightarrow> task \<Rightarrow> task" where
  "resume r s' (Finish s out) = Finish s out"
| "resume r s' (Suspend s w k) = k r s'"
| "resume r s' (Detached w k t) = Detached w k (resume r s' t)"

definition continue :: "reply \<Rightarrow> task \<Rightarrow> task" where
  "continue r t = resume r (task_state t) t"

primrec detached :: "reply \<Rightarrow> PeerCall \<Rightarrow> task \<Rightarrow> task" where
  "detached r s' (Finish s out) = Finish s out"
| "detached r s' (Suspend s w k) = Suspend s w k"
| "detached r s' (Detached w k t) = k r s'"

text \<open>What a task awaits, and what its first piece of detached work awaits.\<close>

primrec awaits :: "task \<Rightarrow> awaited option" where
  "awaits (Finish s out) = None"
| "awaits (Suspend s w k) = Some w"
| "awaits (Detached w k t) = awaits t"

primrec detached_awaits :: "task \<Rightarrow> awaited option" where
  "detached_awaits (Finish s out) = None"
| "detached_awaits (Suspend s w k) = None"
| "detached_awaits (Detached w k t) = Some w"

text \<open>How a task has completed, if it has.\<close>

primrec completed :: "task \<Rightarrow> outcome option" where
  "completed (Finish s out) = Some out"
| "completed (Suspend s w k) = None"
| "completed (Detached w k t) = completed t"

text \<open>
  \<^verbatim>\<open>p.then(f)\<close> for the promise \<open>p\<close> of a task: once \<open>p\<close> has been fulfilled, \<open>f\<close> is
  called, one turn of the job queue later and in the state the PeerCall then has,
  and the new promise settles as what \<open>f\<close> started does; if \<open>p\<close> is rejected, \<open>f\<close> is
  not called and the new promise is rejected.
\<close>

definition then_task :: "task \<Rightarrow> (PeerCall \<Rightarrow> task) \<Rightarrow> task" where
  "then_task p f =
     await_task p (\<lambda>out s. case out of Returned \<Rightarrow> f s | Threw e \<Rightarrow> Finish s (Threw e))"



section \<open>The methods of the PeerCall\<close>

subsection \<open>The logger\<close>

text \<open>
  The constructor assigns \<^verbatim>\<open>this.logger\<close> an object literal with the four methods
  \<^verbatim>\<open>debug\<close>, \<^verbatim>\<open>log\<close>, \<^verbatim>\<open>warn\<close> and \<^verbatim>\<open>error\<close>, which print to the console and
  return. The methods of the class also call \<^verbatim>\<open>this.logger.info\<close>: that property is
  \<^verbatim>\<open>undefined\<close>, so the call raises a TypeError where it stands. \<open>logger_call m s t\<close>
  is a call of method \<open>m\<close> in state \<open>s\<close> followed by \<open>t\<close>.
\<close>

datatype LogMethod = log_debug | log_log | log_warn | log_error | log_info

definition logger :: "LogMethod list" where
  "logger = [log_debug, log_log, log_warn, log_error]"

definition logger_call :: "LogMethod \<Rightarrow> PeerCall \<Rightarrow> task \<Rightarrow> task" where
  "logger_call m s t = (if m \<in> set logger then t else Finish s (Threw TypeError))"

text \<open>
  \<^verbatim>\<open>this.ignoreOffer\<close> is read by \<^verbatim>\<open>addIceCandidates\<close> and declared nowhere: the
  property is \<^verbatim>\<open>undefined\<close>, which is falsy.
\<close>

definition ignoreOffer :: bool where
  "ignoreOffer = False"

subsection \<open>Synchronous helpers\<close>

definition call_effect :: "Effect \<Rightarrow> PeerCall \<Rightarrow> PeerCall" where
  "call_effect e s = s\<lparr>effects := effects s @ [e]\<rparr>"

definition setState :: "CallState \<Rightarrow> PeerCall \<Rightarrow> PeerCall" where
  "setState st s =
     call_effect emitUpdate
       (s\<lparr>state := st, statePromiseMap := removeAll st (statePromiseMap s)\<rparr>)"

definition waitForState :: "CallState \<Rightarrow> PeerCall \<Rightarrow> PeerCall" where
  "waitForState st s =
     (if st \<in> set (statePromiseMap s) then s
      else s\<lparr>statePromiseMap := statePromiseMap s @ [st]\<rparr>)"

definition stopAllMedia :: "PeerCall \<Rightarrow> PeerCall" where
  "stopAllMedia s = s\<lparr>effects := effects s @ map track_stop (tracks (localMedia s))\<rparr>"

text \<open>
  Modelled from the spec: \<^verbatim>\<open>utils/recursivelyAssign\<close> is not among the sources. The
  spec has the incoming metadata merged into the existing map, stream id by stream
  id, later values overwriting earlier ones.
\<close>

fun assign_key ::
  "string \<Rightarrow> SDPStreamMetadataObject \<Rightarrow> SDPStreamMetadata \<Rightarrow> SDPStreamMetadata" where
  "assign_key k v [] = [(k, v)]"
| "assign_key k v ((k', v') # m) =
     (if k' = k then (k, v) # m else (k', v') # assign_key k v m)"

fun recursivelyAssign :: "SDPStreamMetadata \<Rightarrow> SDPStreamMetadata \<Rightarrow> SDPStreamMetadata" where
  "recursivelyAssign target [] = target"
| "recursivelyAssign target ((k, v) # source) = recursivelyAssign (assign_key k v target) source"

text \<open>
  The merged metadata is a plain object, and \<^verbatim>\<open>metadata[track.streamId]\<close> is a
  property read: for a key the object has no entry of its own for, it finds what
  \<^verbatim>\<open>Object.prototype\<close> defines under that name, a function, or for \<^verbatim>\<open>__proto__\<close> the
  prototype itself. Such a value is truthy and has neither \<^verbatim>\<open>audio_muted\<close> nor
  \<^verbatim>\<open>video_muted\<close>: reading them gives \<^verbatim>\<open>undefined\<close>, here \<open>None\<close>.
\<close>

definition Object_prototype :: "string list" where
  "Object_prototype =
     [''constructor'', ''__defineGetter__'', ''__defineSetter__'', ''hasOwnProperty'',
      ''__lookupGetter__'', ''__lookupSetter__'', ''isPrototypeOf'',
      ''propertyIsEnumerable'', ''toString'', ''valueOf'', ''__proto__'',
      ''toLocaleString'']"

datatype property_read = own_entry SDPStreamMetadataObject | inherited_property

definition read_property :: "SDPStreamMetadata \<Rightarrow> string \<Rightarrow> property_read option" where
  "read_property obj key =
     (case map_of obj key of
        Some v \<Rightarrow> Some (own_entry v)
      | None \<Rightarrow> (if key \<in> set Object_prototype then Some inherited_property else None))"

fun read_audio_muted :: "property_read \<Rightarrow> bool option" where
  "read_audio_muted (own_entry v) = Some (audio_muted v)"
| "read_audio_muted inherited_property = None"

fun read_video_muted :: "property_read \<Rightarrow> bool option" where
  "read_video_muted (own_entry v) = Some (video_muted v)"
| "read_video_muted inherited_property = None"

text \<open>
  \<^verbatim>\<open>updateRemoteSDPStreamMetadata\<close>: the merge, the notification of the connection,
  and for each remote track whose stream id reads as a truthy value one call of
  \<^verbatim>\<open>setMuted\<close>. The type of a remote track is read as the connection reports it.
\<close>

definition mute_remote_track :: "SDPStreamMetadata \<Rightarrow> Track \<Rightarrow> Effect list" where
  "mute_remote_track md track =
     (case read_property md (streamId track) of
        None \<Rightarrow> []
      | Some streamMetaData \<Rightarrow>
          (if track_type track = Microphone
           then [track_setMuted track (read_audio_muted streamMetaData)]
           else [track_setMuted track (read_video_muted streamMetaData)]))"

definition updateRemoteSDPStreamMetadata :: "SDPStreamMetadata \<Rightarrow> PeerCall \<Rightarrow> PeerCall" where
  "updateRemoteSDPStreamMetadata metadata s =
     (let md = recursivelyAssign
                 (case remoteSDPStreamMetadata s of None \<Rightarrow> [] | Some m \<Rightarrow> m) metadata;
          s1 = call_effect pc_notifyStreamPurposeChanged (s\<lparr>remoteSDPStreamMetadata := Some md\<rparr>)
      in s1\<lparr>effects := effects s1 @
                concat (map (mute_remote_track md) (remoteTracks (peerConnection s1)))\<rparr>)"

subsection \<open>delay, terminate, hangup\<close>

text \<open>
  Modelled from the spec: \<^verbatim>\<open>utils/Disposables\<close> is not among the sources. The spec
  has a disposables tracker that holds every live timeout handle, so that
  \<^verbatim>\<open>dispose()\<close> can cancel them: \<^verbatim>\<open>track\<close> adds a handle and \<^verbatim>\<open>untrack\<close> removes it.
  A handle is represented by the duration of its timeout.
\<close>

definition disposables_track :: "nat \<Rightarrow> PeerCall \<Rightarrow> PeerCall" where
  "disposables_track timeout s = s\<lparr>disposables := disposables s @ [timeout]\<rparr>"

definition disposables_untrack :: "nat \<Rightarrow> PeerCall \<Rightarrow> PeerCall" where
  "disposables_untrack timeout s = s\<lparr>disposables := remove1 timeout (disposables s)\<rparr>"

text \<open>
  \<^verbatim>\<open>delay\<close> creates a timeout, tracks it and awaits \<^verbatim>\<open>timeout.elapsed()\<close>, which
  rejects when the timeout is aborted.
\<close>

definition delay :: "nat \<Rightarrow> PeerCall \<Rightarrow> task" where
  "delay timeoutMs s =
     Suspend (disposables_track timeoutMs (call_effect (createTimeout timeoutMs) s))
       (AwaitTimeout timeoutMs)
       (\<lambda>r s'. if r = Rejected then Finish s' (Threw Rejection)
               else Finish (disposables_untrack timeoutMs s') Returned)"

text \<open>The body of \<^verbatim>\<open>terminate\<close> is empty: it completes at once, whatever it is given.\<close>

definition terminate :: "CallParty \<Rightarrow> CallErrorCode \<Rightarrow> bool \<Rightarrow> PeerCall \<Rightarrow> task" where
  "terminate party reason shouldEmit s = Finish s Returned"

text \<open>
  \<^verbatim>\<open>hangup\<close> declares no parameter and its body is empty; the reason that
  \<^verbatim>\<open>handleNegotiation\<close> passes it is dropped.
\<close>

definition hangup :: "PeerCall \<Rightarrow> task" where
  "hangup s = Finish s Returned"

subsection \<open>Outbound candidates\<close>

text \<open>
  After a send that succeeded \<^verbatim>\<open>sendCandidateQueue\<close> calls itself, and may go on
  for as long as the platform supplies candidates; \<open>fuel\<close> bounds these further
  rounds, and a round without fuel ends in \<open>OutOfFuel\<close>.
\<close>

primrec sendCandidateQueue :: "nat \<Rightarrow> PeerCall \<Rightarrow> task" where
  "sendCandidateQueue 0 s = Finish s (Threw OutOfFuel)"
| "sendCandidateQueue (Suc fuel) s =
     (if candidateSendQueue s = [] \<or> state s = Ended then Finish s Returned
      else
        let candidates = candidateSendQueue s;
            s1 = s\<lparr>candidateSendQueue := []\<rparr>
        in logger_call log_debug s1
             (Suspend (call_effect (sendSignallingMessage (CandidatesMessage candidates)) s1)
                AwaitSend
                (\<lambda>r s2. if r = Rejected
                   then spawn (terminate Local SignallingFailed False s2) (\<lambda>s3. Finish s3 Returned)
                   else spawn (sendCandidateQueue fuel s2) (\<lambda>s3. Finish s3 Returned))))"

definition queueCandidate :: "RTCIceCandidate \<Rightarrow> nat \<Rightarrow> PeerCall \<Rightarrow> task" where
  "queueCandidate content fuel s =
     (let s1 = s\<lparr>candidateSendQueue := candidateSendQueue s @ [content]\<rparr>
      in if state s1 = Ringing then Finish s1 Returned
         else spawn
                (then_task (delay (if direction s1 = Some Inbound then 500 else 2000) s1)
                   (\<lambda>s2. spawn (sendCandidateQueue fuel s2) (\<lambda>s3. Finish s3 Returned)))
                (\<lambda>s2. Finish s2 Returned))"

subsection \<open>Remote candidates\<close>

primrec addIceCandidates :: "RTCIceCandidate list \<Rightarrow> PeerCall \<Rightarrow> task" where
  "addIceCandidates [] s = Finish s Returned"
| "addIceCandidates (c # candidates) s =
     (if sdpMid c = None \<and> sdpMLineIndex c = None
      then logger_call log_debug s (addIceCandidates candidates s)
      else logger_call log_debug s
             (Suspend (call_effect (pc_addIceCandidate c) s) AwaitPc
                (\<lambda>r s'. if r = Rejected
                   then (if ignoreOffer then addIceCandidates candidates s'
                         else logger_call log_info s' (addIceCandidates candidates s'))
                   else addIceCandidates candidates s')))"

text \<open>
  \<^verbatim>\<open>if (this.remoteCandidateBuffer && this.opponentPartyId)\<close> tests the party id for
  truthiness: \<^verbatim>\<open>undefined\<close>, \<^verbatim>\<open>null\<close> and the empty string all fail it.
\<close>

fun truthy :: "PartyId option \<Rightarrow> string option" where
  "truthy None = None"
| "truthy (Some None) = None"
| "truthy (Some (Some p)) = (if p = [] then None else Some p)"

definition addBufferedIceCandidates :: "PeerCall \<Rightarrow> task" where
  "addBufferedIceCandidates s =
     (case remoteCandidateBuffer s of
        None \<Rightarrow> Finish s Returned
      | Some buffer \<Rightarrow>
          (case truthy (opponentPartyId s) of
             None \<Rightarrow> Finish s Returned
           | Some p \<Rightarrow>
               (case map_of buffer p of
                  Some bufferedCandidates \<Rightarrow>
                    logger_call log_info s
                      (await_task (addIceCandidates bufferedCandidates s)
                         (\<lambda>out s'. case out of
                              Threw e \<Rightarrow> Finish s' (Threw e)
                            | Returned \<Rightarrow> Finish (s'\<lparr>remoteCandidateBuffer := None\<rparr>) Returned))
                | None \<Rightarrow> Finish (s\<lparr>remoteCandidateBuffer := None\<rparr>) Returned)))"

subsection \<open>call and answer\<close>

definition call :: "LocalMedia Promise \<Rightarrow> PeerCall \<Rightarrow> task" where
  "call localMediaPromise s =
     (if state s \<noteq> Fledgling then Finish s Returned
      else
        Suspend (setState WaitLocalMedia (s\<lparr>direction := Some Outbound\<rparr>)) AwaitLocalMedia
          (\<lambda>_ s1. case localMediaPromise of
               rejects \<Rightarrow> Finish (setState Ended s1) Returned
             | resolves m \<Rightarrow>
                 let s2 = setState CreateOffer (s1\<lparr>localMedia := m\<rparr>);
                     s3 = s2\<lparr>effects := effects s2 @ map pc_addTrack (tracks (localMedia s2))\<rparr>
                 in Suspend (waitForState InviteSent s3) (AwaitState InviteSent)
                      (\<lambda>_ s4. Finish s4 Returned)))"

definition sendAnswer :: "nat \<Rightarrow> PeerCall \<Rightarrow> task" where
  "sendAnswer fuel s =
     (case localDescription (peerConnection s) of
        None \<Rightarrow> Finish s (Threw TypeError)
      | Some d \<Rightarrow>
          let answerMessage = AnswerMessage
                \<lparr>answer_answer = Some \<lparr>sdp = sdp d, sdp_type = sdp_type d\<rparr>,
                 answer_sdp_stream_metadata = Some (getSDPMetadata (localMedia s))\<rparr>
          in logger_call log_info s
               (Suspend (call_effect (sendSignallingMessage answerMessage)
                           (s\<lparr>candidateSendQueue := []\<rparr>))
                  AwaitSend
                  (\<lambda>r s1. if r = Rejected
                     then spawn (terminate Local SendAnswer False s1)
                            (\<lambda>s2. Finish s2 (Threw Rejection))
                     else spawn (sendCandidateQueue fuel s1) (\<lambda>s2. Finish s2 Returned))))"

definition answer_created :: "nat \<Rightarrow> reply \<Rightarrow> PeerCall \<Rightarrow> task" where
  "answer_created fuel r s =
     (if r = Rejected
      then logger_call log_debug s
             (spawn (terminate Local CreateAnswer_code True s) (\<lambda>s1. Finish s1 Returned))
      else
        let myAnswer = (case r of FulfilledWith d \<Rightarrow> Some d | _ \<Rightarrow> None)
        in Suspend (call_effect (pc_setLocalDescription myAnswer) s) AwaitPc
             (\<lambda>r1 s1. if r1 = Rejected
                then logger_call log_debug s1
                       (spawn (terminate Local SetLocalDescription True s1)
                          (\<lambda>s2. Finish s2 Returned))
                else await_task (delay 200 (setState Connecting s1))
                       (\<lambda>out s2. case out of
                            Threw e \<Rightarrow> Finish s2 (Threw e)
                          | Returned \<Rightarrow> spawn (sendAnswer fuel s2) (\<lambda>s3. Finish s3 Returned))))"

definition answer :: "LocalMedia Promise \<Rightarrow> nat \<Rightarrow> PeerCall \<Rightarrow> task" where
  "answer localMediaPromise fuel s =
     (if state s \<noteq> Ringing then Finish s Returned
      else
        Suspend (setState WaitLocalMedia s) AwaitLocalMedia
          (\<lambda>_ s1. case localMediaPromise of
               rejects \<Rightarrow> Finish (setState Ended s1) Returned
             | resolves m \<Rightarrow>
                 let s2 = setState CreateAnswer (s1\<lparr>localMedia := m\<rparr>);
                     s3 = s2\<lparr>effects := effects s2 @ map pc_addTrack (tracks (localMedia s2))\<rparr>
                 in Suspend (call_effect pc_createAnswer s3) AwaitPc (answer_created fuel)))"

subsection \<open>Negotiation\<close>

text \<open>
  \<^verbatim>\<open>handleNegotiation\<close> in four parts, the last first: from
  \<^verbatim>\<open>this.sendCandidateQueue()\<close> to the end; from the emptying of the candidate queue
  to the Invite; the state check, the read of the local description and the log
  line; and the function itself, up to the wait for candidates.
\<close>

definition handleNegotiation_timeout :: "nat \<Rightarrow> PeerCall \<Rightarrow> task" where
  "handleNegotiation_timeout fuel s =
     spawn (sendCandidateQueue fuel s)
       (\<lambda>s1. if state s1 = CreateOffer
          then await_task (delay CALL_TIMEOUT_MS s1)
                 (\<lambda>out s2. case out of
                      Threw e \<Rightarrow> Finish s2 (Threw e)
                    | Returned \<Rightarrow>
                        (if state s2 = InviteSent
                         then spawn (hangup s2) (\<lambda>s3. Finish s3 Returned)
                         else Finish s2 Returned))
          else Finish s1 Returned)"






subsection \<open>Inbound signalling\<close>

text \<open>
  \<^verbatim>\<open>handleInvite\<close> in five parts, the last first: the \<^verbatim>\<open>catch\<close> block and the like
  exit for a connection without remote tracks; the expiry of the invite; from the
  check of the remote tracks to the wait for the expiry; the \<^verbatim>\<open>try\<close> block; and the
  function itself, up to the stream metadata.
\<close>

definition handleInvite_failed :: "PeerCall \<Rightarrow> task" where
  "handleInvite_failed s =
     spawn (terminate Local SetRemoteDescription False s) (\<lambda>s1. Finish s1 Returned)"

definition handleInvite_expired :: "PeerCall \<Rightarrow> task" where
  "handleInvite_expired s =
     (if state s = Ringing
      then logger_call log_debug s
             (let s1 = stopAllMedia (setState Ended (s\<lparr>hangupParty := Some Remote\<rparr>))
              in if signalingState (peerConnection s1) \<noteq> closed
                 then Finish (call_effect pc_close s1) Returned
                 else Finish s1 Returned)
      else Finish s Returned)"

definition handleInvite_described :: "InviteContent \<Rightarrow> PeerCall \<Rightarrow> task" where
  "handleInvite_described content s =
     (if remoteTracks (peerConnection s) = []
      then logger_call log_error s (handleInvite_failed s)
      else await_task
             (delay (case invite_lifetime content of Some l \<Rightarrow> l | None \<Rightarrow> CALL_TIMEOUT_MS)
                (setState Ringing s))
             (\<lambda>out s1. case out of
                  Threw e \<Rightarrow> Finish s1 (Threw e)
                | Returned \<Rightarrow> handleInvite_expired s1))"

definition handleInvite_offer :: "InviteContent \<Rightarrow> PeerCall \<Rightarrow> task" where
  "handleInvite_offer content s =
     Suspend (call_effect (pc_setRemoteDescription (invite_offer content)) s) AwaitPc
       (\<lambda>r s1. if r = Rejected then logger_call log_debug s1 (handleInvite_failed s1)
          else await_task (addBufferedIceCandidates s1)
                 (\<lambda>out s2. case out of
                      Threw e \<Rightarrow> logger_call log_debug s2 (handleInvite_failed s2)
                    | Returned \<Rightarrow> handleInvite_described content s2))"

definition handleInvite :: "InviteContent \<Rightarrow> PartyId \<Rightarrow> PeerCall \<Rightarrow> task" where
  "handleInvite content partyId s =
     (if state s \<noteq> Fledgling then Finish s Returned
      else if opponentPartyId s \<noteq> None then Finish s Returned
      else
        let s1 = s\<lparr>opponentPartyId := Some partyId, direction := Some Inbound\<rparr>
        in case invite_sdp_stream_metadata content of
             Some sdpStreamMetadata \<Rightarrow>
               handleInvite_offer content (updateRemoteSDPStreamMetadata sdpStreamMetadata s1)
           | None \<Rightarrow> logger_call log_debug s1 (handleInvite_offer content s1))"

text \<open>
  \<^verbatim>\<open>handleAnswer\<close> in three parts, the last first: the \<^verbatim>\<open>try\<close> block; from the
  transition to Connecting to the stream metadata; and the function itself, up to
  the drain of the buffered candidates.
\<close>

definition handleAnswer_description :: "AnwserContent \<Rightarrow> PeerCall \<Rightarrow> task" where
  "handleAnswer_description content s =
     Suspend (call_effect (pc_setRemoteDescription (answer_answer content)) s) AwaitPc
       (\<lambda>r s1. if r = Rejected
          then logger_call log_debug s1
                 (spawn (terminate Local SetRemoteDescription False s1)
                    (\<lambda>s2. Finish s2 Returned))
          else Finish s1 Returned)"

definition handleAnswer_connecting :: "AnwserContent \<Rightarrow> PeerCall \<Rightarrow> task" where
  "handleAnswer_connecting content s =
     (let s1 = setState Connecting s
      in case answer_sdp_stream_metadata content of
           Some sdpStreamMetadata \<Rightarrow>
             handleAnswer_description content (updateRemoteSDPStreamMetadata sdpStreamMetadata s1)
         | None \<Rightarrow> logger_call log_warn s1 (handleAnswer_description content s1))"

definition handleAnswer :: "AnwserContent \<Rightarrow> PartyId \<Rightarrow> PeerCall \<Rightarrow> task" where
  "handleAnswer content partyId s =
     logger_call log_debug s
       (if state s = Ended then logger_call log_debug s (Finish s Returned)
        else if opponentPartyId s \<noteq> None then logger_call log_info s (Finish s Returned)
        else await_task (addBufferedIceCandidates (s\<lparr>opponentPartyId := Some partyId\<rparr>))
               (\<lambda>out s1. case out of
                    Threw e \<Rightarrow> Finish s1 (Threw e)
                  | Returned \<Rightarrow> handleAnswer_connecting content s1))"

text \<open>
  The content of a message, read as the handler it is passed to reads it: a
  property the message lacks is \<^verbatim>\<open>undefined\<close>.
\<close>

fun invite_content :: "SignallingMessage \<Rightarrow> InviteContent" where
  "invite_content (InviteMessage c) = c"
| "invite_content m =
     \<lparr>invite_offer = None, invite_sdp_stream_metadata = None,
      invite_version = None, invite_lifetime = None\<rparr>"

fun answer_content :: "SignallingMessage \<Rightarrow> AnwserContent" where
  "answer_content (AnswerMessage c) = c"
| "answer_content m = \<lparr>answer_answer = None, answer_sdp_stream_metadata = None\<rparr>"

text \<open>
  The dispatch is synchronous and awaits none of the handlers it starts. The class
  has no method \<^verbatim>\<open>handleRemoteIceCandidates\<close>, so the call made for a Candidates
  message raises a TypeError. The case of a Hangup has no statement, and the
  \<^verbatim>\<open>switch\<close> has no default.
\<close>

definition handleIncomingSignallingMessage ::
  "SignallingMessage \<Rightarrow> PartyId \<Rightarrow> PeerCall \<Rightarrow> task" where
  "handleIncomingSignallingMessage message partyId s =
     (case message_type message of
        Invite \<Rightarrow>
          spawn (handleInvite (invite_content message) partyId s) (\<lambda>s1. Finish s1 Returned)
      | Answer \<Rightarrow>
          spawn (handleAnswer (answer_content message) partyId s) (\<lambda>s1. Finish s1 Returned)
      | Candidates \<Rightarrow> Finish s (Threw TypeError)
      | Hangup \<Rightarrow> Finish s Returned
      | _ \<Rightarrow> Finish s Returned)"

subsection \<open>A new PeerCall\<close>

text \<open>The field initialisers and the constructor, for a given local media and connection.\<close>

definition new_PeerCall :: "LocalMedia \<Rightarrow> PeerConnection \<Rightarrow> PeerCall" where
  "new_PeerCall media pc =
     \<lparr>peerConnection = pc, state = Fledgling, direction = None, candidateSendQueue = [],
      remoteCandidateBuffer = Some [], remoteSDPStreamMetadata = None,
      opponentPartyId = None, hangupParty = None, hangupReason = None,
      disposables = [], statePromiseMap = [], localMedia = media, effects = []\<rparr>"

subsection \<open>Concrete values\<close>

definition example_track :: Track where
  "example_track = \<lparr>track_id = ''t1'', streamId = ''s1'', track_type = Microphone\<rparr>"

definition example_media :: LocalMedia where
  "example_media =
     \<lparr>tracks = [example_track],
      getSDPMetadata =
        [(''s1'', \<lparr>purpose = Usermedia, audio_muted = False, video_muted = False\<rparr>)]\<rparr>"

definition example_remote_track :: Track where
  "example_remote_track = \<lparr>track_id = ''t9'', streamId = ''r1'', track_type = Microphone\<rparr>"

text \<open>A remote track whose stream id names a property of \<^verbatim>\<open>Object.prototype\<close>.\<close>

definition example_inherited_track :: Track where
  "example_inherited_track = \<lparr>track_id = ''t8'', streamId = ''toString'', track_type = Camera\<rparr>"

definition example_pc :: PeerConnection where
  "example_pc =
     \<lparr>remoteTracks = [example_remote_track], iceGatheringState = gathering_new,
      signalingState = stable,
      localDescription = Some \<lparr>sdp = ''v=0 local'', sdp_type = ''offer''\<rparr>\<rparr>"

definition example_answer :: AnwserContent where
  "example_answer =
     \<lparr>answer_answer = Some \<lparr>sdp = ''v=0 answer'', sdp_type = ''answer''\<rparr>,
      answer_sdp_stream_metadata =
        Some [(''r1'', \<lparr>purpose = Usermedia, audio_muted = True, video_muted = False\<rparr>)]\<rparr>"

definition example_invite :: InviteContent where
  "example_invite =
     \<lparr>invite_offer = Some \<lparr>sdp = ''v=0 offer'', sdp_type = ''offer''\<rparr>,
      invite_sdp_stream_metadata = None, invite_version = Some 1,
      invite_lifetime = Some 60000\<rparr>"

definition example_candidate :: "string \<Rightarrow> RTCIceCandidate" where
  "example_candidate c = \<lparr>candidate = c, sdpMid = Some ''0'', sdpMLineIndex = Some 0\<rparr>"

text \<open>
  A fresh PeerCall; one whose fields say that its Invite has been sent; one whose
  fields say it is connecting to party B; and one that has ended.
\<close>

definition example_call :: PeerCall where
  "example_call = new_PeerCall example_media example_pc"

definition example_connecting :: PeerCall where
  "example_connecting =
     example_call\<lparr>state := Connecting, direction := Some Outbound,
       opponentPartyId := Some (Some ''B''), remoteCandidateBuffer := None\<rparr>"

definition example_invite_sent :: PeerCall where
  "example_invite_sent = example_call\<lparr>state := InviteSent, direction := Some Outbound\<rparr>"

definition example_ended :: PeerCall where
  "example_ended = example_call\<lparr>state := Ended, direction := Some Outbound\<rparr>"

section \<open>Properties\<close>

lemmas example_defs =
  example_invite_sent_def example_ended_def example_connecting_def example_call_def
  new_PeerCall_def example_answer_def example_invite_def example_media_def example_pc_def
  example_track_def example_remote_track_def example_inherited_track_def example_candidate_def

lemma logger_call_simps [simp]:
  "logger_call log_debug s t = t"
  "logger_call log_warn s t = t"
  "logger_call log_error s t = t"
  "logger_call log_info s t = Finish s (Threw TypeError)"
  by (simp_all add: logger_call_def logger_def)

subsection \<open>Guards of call and answer\<close>

text \<open>
  C10. \<^verbatim>\<open>call()\<close> in a state other than Fledgling and \<^verbatim>\<open>answer()\<close> in a state other than
  Ringing complete at once and change nothing: the task is finished, not suspended,
  nothing is detached, and the PeerCall it leaves is the one it was given, every
  field and the trace of calls on the peer connection and the host included.
\<close>

theorem call_answer_wrong_state_noop:
  "(state s \<noteq> Fledgling \<longrightarrow> call localMediaPromise s = Finish s Returned) \<and>
   (state s \<noteq> Ringing \<longrightarrow> answer localMediaPromise fuel s = Finish s Returned)"
  by (simp add: call_def answer_def)

theorem call_answer_wrong_state_noop_witness:
  "call (resolves example_media) example_connecting = Finish example_connecting Returned \<and>
   answer (resolves example_media) 1 example_call = Finish example_call Returned"
  using call_answer_wrong_state_noop [of example_connecting "resolves example_media"]
    call_answer_wrong_state_noop [of example_call "resolves example_media" 1]
  by (simp add: example_connecting_def example_call_def new_PeerCall_def)

subsection \<open>Termination\<close>

text \<open>
  C1. The claim has \<^verbatim>\<open>terminate(party, reason, emit)\<close> on a PeerCall that has not ended
  set hangupParty and hangupReason, move to Ended, stop the local tracks, close the
  peer connection, cancel the delays and emit an update when asked. The method has
  an empty body: on every PeerCall and for all arguments it completes at once and
  leaves every field and the trace as they were. On a connecting call,
  \<^verbatim>\<open>terminate(Local, SetLocalDescription, true)\<close> leaves the state Connecting, no
  hangup party, no hangup reason and an empty trace.
\<close>

theorem terminate_changes_nothing:
  "terminate party reason shouldEmit s = Finish s Returned \<and>
   state (task_state (terminate Local SetLocalDescription True example_connecting)) = Connecting \<and>
   hangupParty (task_state (terminate Local SetLocalDescription True example_connecting)) = None \<and>
   hangupReason (task_state (terminate Local SetLocalDescription True example_connecting)) = None \<and>
   effects (task_state (terminate Local SetLocalDescription True example_connecting)) = []"
  by (simp add: terminate_def example_connecting_def example_call_def new_PeerCall_def)

subsection \<open>Dispatch of inbound messages\<close>

text \<open>
  C6. The claim has an inbound Hangup terminate the call with party Remote and
  reason UserHangup. The \<^verbatim>\<open>case EventType.Hangup:\<close> of the dispatch has no statement:
  a Hangup message, like a message of any type the switch does not list, leaves the
  PeerCall as it was. On a connecting call the state stays Connecting and no hangup
  party is recorded.
\<close>

theorem hangup_message_changes_nothing:
  "handleIncomingSignallingMessage (OtherMessage Hangup) partyId s = Finish s Returned \<and>
   handleIncomingSignallingMessage (OtherMessage Reject) partyId s = Finish s Returned \<and>
   state (task_state
     (handleIncomingSignallingMessage (OtherMessage Hangup) (Some ''B'') example_connecting))
     = Connecting \<and>
   hangupParty (task_state
     (handleIncomingSignallingMessage (OtherMessage Hangup) (Some ''B'') example_connecting))
     = None"
  by (simp add: handleIncomingSignallingMessage_def example_connecting_def example_call_def
      new_PeerCall_def)

subsection \<open>Local media that cannot be had\<close>




subsection \<open>The opponent is chosen before the first await\<close>

lemma handleAnswer_accepted:
  assumes "state s \<noteq> Ended" "opponentPartyId s = None"
  shows "opponentPartyId (task_state (handleAnswer content partyId s)) = Some partyId"
    and "awaits (handleAnswer content partyId s) = Some AwaitTask"
    and "detached_awaits (handleAnswer content partyId s) = None"
  using assms
  by (auto simp add: handleAnswer_def addBufferedIceCandidates_def split: option.splits)

lemma handleInvite_accepted:
  assumes "state s = Fledgling" "opponentPartyId s = None"
  shows "opponentPartyId (task_state (handleInvite content partyId s)) = Some partyId"
    and "awaits (handleInvite content partyId s) = Some AwaitPc"
    and "detached_awaits (handleInvite content partyId s) = None"
  using assms
  by (simp_all add: handleInvite_def handleInvite_offer_def call_effect_def
      updateRemoteSDPStreamMetadata_def Let_def split: option.splits)

lemma opponent_set_ignored:
  assumes "opponentPartyId s \<noteq> None"
  shows "handleInvite content partyId s = Finish s Returned"
    and "\<exists>out. handleAnswer acontent partyId s = Finish s out"
  using assms by (simp_all add: handleInvite_def handleAnswer_def)

text \<open>
  C3. \<^verbatim>\<open>handleInvite\<close> returns at once, with the PeerCall unchanged, unless the state
  is Fledgling and no opponent is set. When it does process the Invite, and when
  \<^verbatim>\<open>handleAnswer\<close> processes an Answer, the PeerCall at the first suspension (the
  state the synchronous segment leaves) has \<open>opponentPartyId\<close> set to the sender's
  party id, \<^verbatim>\<open>null\<close> included. And in every state \<open>s'\<close> with an opponent set, whatever
  else has happened to it, a further Invite returns at once and a further Answer
  completes at once, both leaving \<open>s'\<close> unchanged: none is accepted in between.
\<close>

theorem opponent_committed_before_await:
  "(state s \<noteq> Fledgling \<or> opponentPartyId s \<noteq> None \<longrightarrow>
      handleInvite content partyId s = Finish s Returned) \<and>
   (state s = Fledgling \<and> opponentPartyId s = None \<longrightarrow>
      awaits (handleInvite content partyId s) = Some AwaitPc \<and>
      opponentPartyId (task_state (handleInvite content partyId s)) = Some partyId) \<and>
   (state s \<noteq> Ended \<and> opponentPartyId s = None \<longrightarrow>
      awaits (handleAnswer acontent partyId s) = Some AwaitTask \<and>
      opponentPartyId (task_state (handleAnswer acontent partyId s)) = Some partyId) \<and>
   (opponentPartyId s' \<noteq> None \<longrightarrow>
      handleInvite content' partyId' s' = Finish s' Returned \<and>
      (\<exists>out. handleAnswer acontent' partyId' s' = Finish s' out))"
  using handleAnswer_accepted [of s acontent partyId] handleInvite_accepted [of s content partyId]
    opponent_set_ignored [where s = s']
  by (auto simp add: handleInvite_def)

theorem opponent_committed_before_await_witness:
  "handleInvite example_invite (Some ''C'') example_connecting
     = Finish example_connecting Returned \<and>
   opponentPartyId (task_state (handleInvite example_invite None example_call)) = Some None \<and>
   opponentPartyId (task_state (handleAnswer example_answer (Some ''B'') example_invite_sent))
     = Some (Some ''B'') \<and>
   handleInvite example_invite (Some ''C'')
       (task_state (handleAnswer example_answer (Some ''B'') example_invite_sent))
     = Finish (task_state (handleAnswer example_answer (Some ''B'') example_invite_sent))
         Returned \<and>
   handleAnswer example_answer (Some ''C'')
       (task_state (handleInvite example_invite None example_call))
     = Finish (task_state (handleInvite example_invite None example_call)) (Threw TypeError)"
  using opponent_committed_before_await
      [where s = example_connecting and content = example_invite and partyId = "Some ''C''"]
    opponent_committed_before_await
      [where s = example_call and content = example_invite and partyId = None
         and s' = "task_state (handleInvite example_invite None example_call)"
         and acontent' = example_answer and partyId' = "Some ''C''"]
    opponent_committed_before_await
      [where s = example_invite_sent and acontent = example_answer and partyId = "Some ''B''"
         and s' = "task_state (handleAnswer example_answer (Some ''B'') example_invite_sent)"
         and content' = example_invite and partyId' = "Some ''C''"]
  by (simp add: example_invite_sent_def example_connecting_def example_call_def new_PeerCall_def
      example_invite_def handleInvite_def handleInvite_offer_def handleAnswer_def call_effect_def)

subsection \<open>Answers\<close>






subsection \<open>Concrete runs\<close>

lemmas run_defs = continue_def then_task_def call_effect_def setState_def waitForState_def stopAllMedia_def
  updateRemoteSDPStreamMetadata_def mute_remote_track_def read_property_def delay_def
  disposables_track_def
  disposables_untrack_def terminate_def hangup_def
  addBufferedIceCandidates_def CALL_TIMEOUT_MS_def

subsection \<open>Buffered remote candidates\<close>

text \<open>
  C4. The claim has the candidates buffered under the chosen party id added in order,
  the others discarded and the buffer destroyed, for every party id, \<^verbatim>\<open>null\<close>
  included. \<^verbatim>\<open>addBufferedIceCandidates\<close> tests \<^verbatim>\<open>this.opponentPartyId\<close> for truthiness,
  which \<^verbatim>\<open>null\<close> fails: whatever the PeerCall, once the opponent is the legacy party
  the method returns at once and the buffer stays. So a fresh PeerCall that accepts
  an Invite from the legacy party reaches Ringing with its buffer still present, and
  one that accepts an Answer from it reaches Connecting with the candidates of party
  X still buffered. For a party id that passes the test and has candidates
  buffered, the method calls \<^verbatim>\<open>this.logger.info\<close> before it adds them: the Answer of
  party Y ends in a TypeError with no candidate added and the buffer kept.
\<close>

theorem buffer_kept_for_legacy_party:
  "addBufferedIceCandidates (s\<lparr>opponentPartyId := Some None\<rparr>)
     = Finish (s\<lparr>opponentPartyId := Some None\<rparr>) Returned \<and>
   state (task_state
     (continue Fulfilled (continue Fulfilled (handleInvite example_invite None example_call))))
     = Ringing \<and>
   opponentPartyId (task_state
     (continue Fulfilled (continue Fulfilled (handleInvite example_invite None example_call))))
     = Some None \<and>
   remoteCandidateBuffer (task_state
     (continue Fulfilled (continue Fulfilled (handleInvite example_invite None example_call))))
     = Some [] \<and>
   state (task_state (continue Fulfilled (handleAnswer example_answer None
     (example_invite_sent\<lparr>remoteCandidateBuffer := Some [(''X'', [example_candidate ''x1''])]\<rparr>))))
     = Connecting \<and>
   remoteCandidateBuffer (task_state (continue Fulfilled (handleAnswer example_answer None
     (example_invite_sent\<lparr>remoteCandidateBuffer := Some [(''X'', [example_candidate ''x1''])]\<rparr>))))
     = Some [(''X'', [example_candidate ''x1''])] \<and>
   continue Fulfilled (handleAnswer example_answer (Some ''Y'')
     (example_invite_sent\<lparr>remoteCandidateBuffer :=
        Some [(''X'', [example_candidate ''x1'']),
              (''Y'', [example_candidate ''y1'', example_candidate ''y2''])]\<rparr>))
     = Finish (example_invite_sent\<lparr>remoteCandidateBuffer :=
        Some [(''X'', [example_candidate ''x1'']),
              (''Y'', [example_candidate ''y1'', example_candidate ''y2''])],
        opponentPartyId := Some (Some ''Y'')\<rparr>) (Threw TypeError)"
proof (intro conjI)
  show "addBufferedIceCandidates (s\<lparr>opponentPartyId := Some None\<rparr>)
     = Finish (s\<lparr>opponentPartyId := Some None\<rparr>) Returned"
    by (simp add: addBufferedIceCandidates_def split: option.splits)
qed (simp_all add: run_defs example_defs handleInvite_def handleInvite_offer_def
    handleInvite_described_def handleAnswer_def handleAnswer_connecting_def
    handleAnswer_description_def)

subsection \<open>handleNegotiation stops before its Invite\<close>


text \<open>
  Those lines, were they run, would arm no timeout: their last part tests
  \<^verbatim>\<open>state === CreateOffer\<close> after the state has become InviteSent, and entered in
  that state with nothing queued it completes at once.
\<close>

lemma handleNegotiation_timeout_after_invite:
  "handleNegotiation_timeout (Suc fuel) (s\<lparr>state := InviteSent, candidateSendQueue := []\<rparr>)
     = Finish (s\<lparr>state := InviteSent, candidateSendQueue := []\<rparr>) Returned"
  by (simp add: handleNegotiation_timeout_def)

subsection \<open>Outbound candidates are batched\<close>

text \<open>
  C7, as the claim states it, fails twice. A candidate queued on a call that has
  ended is never sent: when its delay of 2000 ms has elapsed,
  \<^verbatim>\<open>sendCandidateQueue\<close> returns at its guard, the candidate stays queued and the only
  call made is the creation of the timeout. And on a connecting call, when the
  send of the Candidates message is rejected, the call is not terminated: the
  state stays Connecting and no hangup party is recorded.
\<close>

theorem queueCandidate_counterexample:
  "continue Fulfilled
     (detached Fulfilled (task_state (queueCandidate (example_candidate ''c1'') 1 example_ended))
        (queueCandidate (example_candidate ''c1'') 1 example_ended))
     = Finish (example_ended\<lparr>candidateSendQueue := [example_candidate ''c1''],
                effects := [createTimeout 2000]\<rparr>) Returned \<and>
   detached_awaits (continue Fulfilled
     (detached Fulfilled
        (task_state (queueCandidate (example_candidate ''c1'') 1 example_connecting))
        (queueCandidate (example_candidate ''c1'') 1 example_connecting)))
     = Some AwaitSend \<and>
   detached Rejected
     (example_connecting\<lparr>effects := [createTimeout 2000,
        sendSignallingMessage (CandidatesMessage [example_candidate ''c1''])]\<rparr>)
     (continue Fulfilled
        (detached Fulfilled
           (task_state (queueCandidate (example_candidate ''c1'') 1 example_connecting))
           (queueCandidate (example_candidate ''c1'') 1 example_connecting)))
     = Finish (example_connecting\<lparr>effects := [createTimeout 2000,
        sendSignallingMessage (CandidatesMessage [example_candidate ''c1''])]\<rparr>) Returned \<and>
   state example_connecting = Connecting \<and> hangupParty example_connecting = None"
  by (simp add: run_defs example_defs queueCandidate_def)

lemma queueCandidate_ringing:
  "state s = Ringing \<Longrightarrow>
     queueCandidate c fuel s = Finish (s\<lparr>candidateSendQueue := candidateSendQueue s @ [c]\<rparr>) Returned"
  by (simp add: queueCandidate_def)

lemma queueCandidate_scheduled:
  assumes "state s \<noteq> Ringing"
  shows "awaits (queueCandidate c fuel s) = None"
    and "detached_awaits (queueCandidate c fuel s)
           = Some (AwaitTimeout (if direction s = Some Inbound then 500 else 2000))"
    and "candidateSendQueue (task_state (queueCandidate c fuel s)) = candidateSendQueue s @ [c]"
    and "effects (task_state (queueCandidate c fuel s))
           = effects s @ [createTimeout (if direction s = Some Inbound then 500 else 2000)]"
    and "state (task_state (queueCandidate c fuel s)) = state s"
    and "resume r s2 (detached Fulfilled s1 (queueCandidate c fuel s))
           = spawn (sendCandidateQueue fuel s2) (\<lambda>s3. Finish s3 Returned)"
  using assms
  by (simp_all add: queueCandidate_def then_task_def delay_def disposables_track_def
      call_effect_def Let_def)

lemma sendCandidateQueue_sends:
  assumes "candidateSendQueue s2 \<noteq> []" "state s2 \<noteq> Ended"
  shows "awaits (spawn (sendCandidateQueue (Suc fuel) s2) (\<lambda>s3. Finish s3 Returned)) = None"
    and "detached_awaits (spawn (sendCandidateQueue (Suc fuel) s2) (\<lambda>s3. Finish s3 Returned))
           = Some AwaitSend"
    and "candidateSendQueue (task_state
           (spawn (sendCandidateQueue (Suc fuel) s2) (\<lambda>s3. Finish s3 Returned))) = []"
    and "effects (task_state (spawn (sendCandidateQueue (Suc fuel) s2) (\<lambda>s3. Finish s3 Returned)))
           = effects s2 @ [sendSignallingMessage (CandidatesMessage (candidateSendQueue s2))]"
    and "detached Rejected s3 (spawn (sendCandidateQueue (Suc fuel) s2) (\<lambda>s3. Finish s3 Returned))
           = Finish s3 Returned"
  using assms by (simp_all add: call_effect_def terminate_def Let_def)

lemma sendCandidateQueue_idle:
  assumes "candidateSendQueue s2 = [] \<or> state s2 = Ended"
  shows "spawn (sendCandidateQueue (Suc fuel) s2) (\<lambda>s3. Finish s3 Returned) = Finish s2 Returned"
  using assms by auto

text \<open>
  C7, amended. \<^verbatim>\<open>queueCandidate\<close> appends the candidate to the queue. In state Ringing
  it does nothing more. Otherwise it creates one timeout, of 500 ms when the
  direction is Inbound and of 2000 ms when it is not, and detaches the work that
  waits for it. When the timeout has elapsed and that work is resumed in a state
  \<open>s2\<close>: if the queue is not empty and the call has not ended, the whole queue of
  \<open>s2\<close> goes into one Candidates message, in queue order, the queue is emptied and
  the send is awaited, and if the send is rejected the queue is left as it then
  is (nothing is put back); if the queue is empty or the call has ended, nothing
  is sent.
\<close>

theorem queueCandidate_batches:
  "(state s = Ringing \<longrightarrow>
      queueCandidate c fuel s
        = Finish (s\<lparr>candidateSendQueue := candidateSendQueue s @ [c]\<rparr>) Returned) \<and>
   (state s \<noteq> Ringing \<longrightarrow>
      awaits (queueCandidate c fuel s) = None \<and>
      detached_awaits (queueCandidate c fuel s)
        = Some (AwaitTimeout (if direction s = Some Inbound then 500 else 2000)) \<and>
      candidateSendQueue (task_state (queueCandidate c fuel s)) = candidateSendQueue s @ [c] \<and>
      effects (task_state (queueCandidate c fuel s))
        = effects s @ [createTimeout (if direction s = Some Inbound then 500 else 2000)]) \<and>
   (state s \<noteq> Ringing \<and> candidateSendQueue s2 \<noteq> [] \<and> state s2 \<noteq> Ended \<longrightarrow>
      detached_awaits (resume r s2 (detached Fulfilled s1 (queueCandidate c (Suc fuel) s)))
        = Some AwaitSend \<and>
      candidateSendQueue (task_state
        (resume r s2 (detached Fulfilled s1 (queueCandidate c (Suc fuel) s)))) = [] \<and>
      effects (task_state (resume r s2 (detached Fulfilled s1 (queueCandidate c (Suc fuel) s))))
        = effects s2 @ [sendSignallingMessage (CandidatesMessage (candidateSendQueue s2))] \<and>
      candidateSendQueue (task_state (detached Rejected s3
        (resume r s2 (detached Fulfilled s1 (queueCandidate c (Suc fuel) s)))))
        = candidateSendQueue s3) \<and>
   (state s \<noteq> Ringing \<and> (candidateSendQueue s2 = [] \<or> state s2 = Ended) \<longrightarrow>
      resume r s2 (detached Fulfilled s1 (queueCandidate c (Suc fuel) s)) = Finish s2 Returned)"
proof (intro conjI impI)
  assume "state s = Ringing"
  then show "queueCandidate c fuel s
        = Finish (s\<lparr>candidateSendQueue := candidateSendQueue s @ [c]\<rparr>) Returned"
    by (rule queueCandidate_ringing)
next
  assume h: "state s \<noteq> Ringing"
  show "awaits (queueCandidate c fuel s) = None"
    and "detached_awaits (queueCandidate c fuel s)
        = Some (AwaitTimeout (if direction s = Some Inbound then 500 else 2000))"
    and "candidateSendQueue (task_state (queueCandidate c fuel s)) = candidateSendQueue s @ [c]"
    and "effects (task_state (queueCandidate c fuel s))
        = effects s @ [createTimeout (if direction s = Some Inbound then 500 else 2000)]"
    using queueCandidate_scheduled [OF h] by blast+
next
  assume h: "state s \<noteq> Ringing \<and> candidateSendQueue s2 \<noteq> [] \<and> state s2 \<noteq> Ended"
  then have h1: "state s \<noteq> Ringing" and h2: "candidateSendQueue s2 \<noteq> []"
    and h3: "state s2 \<noteq> Ended"
    by blast+
  note q = queueCandidate_scheduled(6) [OF h1]
  note snd = sendCandidateQueue_sends [OF h2 h3]
  show "detached_awaits (resume r s2 (detached Fulfilled s1 (queueCandidate c (Suc fuel) s)))
        = Some AwaitSend"
    by (simp only: q snd(2))
  show "candidateSendQueue (task_state
        (resume r s2 (detached Fulfilled s1 (queueCandidate c (Suc fuel) s)))) = []"
    by (simp only: q snd(3))
  show "effects (task_state (resume r s2 (detached Fulfilled s1 (queueCandidate c (Suc fuel) s))))
        = effects s2 @ [sendSignallingMessage (CandidatesMessage (candidateSendQueue s2))]"
    by (simp only: q snd(4))
  show "candidateSendQueue (task_state (detached Rejected s3
        (resume r s2 (detached Fulfilled s1 (queueCandidate c (Suc fuel) s)))))
        = candidateSendQueue s3"
    by (simp only: q snd(5) task_state.simps)
next
  assume h: "state s \<noteq> Ringing \<and> (candidateSendQueue s2 = [] \<or> state s2 = Ended)"
  then have h1: "state s \<noteq> Ringing" and h2: "candidateSendQueue s2 = [] \<or> state s2 = Ended"
    by blast+
  show "resume r s2 (detached Fulfilled s1 (queueCandidate c (Suc fuel) s)) = Finish s2 Returned"
    by (simp only: queueCandidate_scheduled(6) [OF h1] sendCandidateQueue_idle [OF h2])
qed

theorem queueCandidate_batches_witness:
  "queueCandidate (example_candidate ''c1'') 1 (example_call\<lparr>state := Ringing\<rparr>)
     = Finish (example_call\<lparr>state := Ringing,
         candidateSendQueue := [example_candidate ''c1'']\<rparr>) Returned \<and>
   detached_awaits (queueCandidate (example_candidate ''c2'') 1
       (example_connecting\<lparr>candidateSendQueue := [example_candidate ''c1'']\<rparr>))
     = Some (AwaitTimeout 2000) \<and>
   effects (task_state (continue Fulfilled (detached Fulfilled
       (task_state (queueCandidate (example_candidate ''c2'') 1
          (example_connecting\<lparr>candidateSendQueue := [example_candidate ''c1'']\<rparr>)))
       (queueCandidate (example_candidate ''c2'') 1
          (example_connecting\<lparr>candidateSendQueue := [example_candidate ''c1'']\<rparr>)))))
     = [createTimeout 2000,
        sendSignallingMessage
          (CandidatesMessage [example_candidate ''c1'', example_candidate ''c2''])] \<and>
   continue Fulfilled (detached Fulfilled
       (task_state (queueCandidate (example_candidate ''c1'') 1 example_ended))
       (queueCandidate (example_candidate ''c1'') 1 example_ended))
     = Finish (example_ended\<lparr>candidateSendQueue := [example_candidate ''c1''],
                effects := [createTimeout 2000]\<rparr>) Returned"
  using queueCandidate_batches
      [where s = "example_call\<lparr>state := Ringing\<rparr>" and c = "example_candidate ''c1''"
         and fuel = 1]
    queueCandidate_batches
      [where s = "example_connecting\<lparr>candidateSendQueue := [example_candidate ''c1'']\<rparr>"
         and c = "example_candidate ''c2''" and fuel = 0 and r = Fulfilled
         and ?s1.0 = "task_state (queueCandidate (example_candidate ''c2'') 1
            (example_connecting\<lparr>candidateSendQueue := [example_candidate ''c1'']\<rparr>))"
         and ?s2.0 = "task_state (detached Fulfilled
            (task_state (queueCandidate (example_candidate ''c2'') 1
              (example_connecting\<lparr>candidateSendQueue := [example_candidate ''c1'']\<rparr>)))
            (queueCandidate (example_candidate ''c2'') 1
              (example_connecting\<lparr>candidateSendQueue := [example_candidate ''c1'']\<rparr>)))"]
    queueCandidate_batches
      [where s = example_ended and c = "example_candidate ''c1''" and fuel = 0 and r = Fulfilled
         and ?s1.0 = "task_state (queueCandidate (example_candidate ''c1'') 1 example_ended)"
         and ?s2.0 = "task_state (detached Fulfilled
            (task_state (queueCandidate (example_candidate ''c1'') 1 example_ended))
            (queueCandidate (example_candidate ''c1'') 1 example_ended))"]
  by (simp add: run_defs example_defs queueCandidate_def)

subsection \<open>Negotiations run one after the other\<close>






lemma completed_await_task: "completed t = None \<Longrightarrow> completed (await_task t k) = None"
  by (induction t) simp_all

lemma completed_await_task_None [simp]: "completed (await_task t k) = None"
  by (induction t) simp_all















end
